theory Spec2Isabelle
  imports Complex_Main
begin

section \<open>The barotropic model of \<open>barotropic/model.py\<close>\<close>

text \<open>
  The class \<open>BarotropicModel\<close> is embedded as a record of its attributes and one HOL
  function per method, each taking the model and returning the updated model.

  Numbers are exact: a \<open>float64\<close> is a \<open>real\<close> and a \<open>complex128\<close> is a \<open>complex\<close>.
  Rounding, overflow, infinities and NaN are not represented; where the source would
  produce a non-finite value from a division by zero at construction, the model returns the
  marker \<open>NonFinite\<close> instead of a number. A statement that equates the result of the
  source's operations, taken in the source's order, with those same operations is not
  affected by the rounding left out. Where a statement compares two different orders of
  operations, the rounding decides: the section on float64 arithmetic below defines it and
  applies it to the clock and to the filter of the leapfrog step.

  A one-dimensional array is a list, a two-dimensional array a list of rows. Element-wise
  numpy operations are \<open>map\<close> and \<open>map2\<close>; the arrays that meet in one operation have the
  same shape whenever the transform engine returns arrays of the shapes of its interface,
  and numpy's shape errors for other engines are not represented. A slice assignment
  \<open>a[:] = b\<close> between arrays of one shape replaces the contents of \<open>a\<close> by those of \<open>b\<close>.
\<close>

subsection \<open>Arrays and element-wise arithmetic\<close>

type_synonym grid = "real list list"
type_synonym spec = "complex list"

definition vadd :: "spec \<Rightarrow> spec \<Rightarrow> spec" where
  "vadd xs ys = map2 (+) xs ys"

definition vsub :: "spec \<Rightarrow> spec \<Rightarrow> spec" where
  "vsub xs ys = map2 (-) xs ys"

text \<open>A real scalar times a complex array, and a real array times a complex array.\<close>

definition scal :: "real \<Rightarrow> spec \<Rightarrow> spec" where
  "scal a xs = map (\<lambda>z. complex_of_real a * z) xs"

definition rmul :: "real list \<Rightarrow> spec \<Rightarrow> spec" where
  "rmul ds xs = map2 (\<lambda>d z. complex_of_real d * z) ds xs"

definition zeros_like :: "spec \<Rightarrow> spec" where
  "zeros_like xs = map (\<lambda>_. 0) xs"

definition grid_mul :: "grid \<Rightarrow> grid \<Rightarrow> grid" where
  "grid_mul a b = map2 (map2 (*)) a b"

definition grid_neg :: "grid \<Rightarrow> grid" where
  "grid_neg a = map (map uminus) a"

text \<open>
  The Coriolis parameter is a column array of shape \<open>[nlat, 1]\<close>, held as the list of its
  \<open>nlat\<close> entries. Adding it to a grid field broadcasts each entry along its row.
\<close>

definition column_add :: "real list \<Rightarrow> grid \<Rightarrow> grid" where
  "column_add col a = map2 (\<lambda>c row. map (\<lambda>z. c + z) row) col a"

subsection \<open>The transform engine\<close>

text \<open>
  \<open>TransformsEngine\<close> lives in \<open>pyspharm_transforms.py\<close>, which is not part of the source at
  hand. The model takes it as a parameter: a record of the methods and the attribute that
  \<open>model.py\<close> uses, the methods being pure functions of their arguments.
\<close>

record engine =
  grid_to_spec :: "grid \<Rightarrow> spec"
  spec_to_grid :: "spec \<Rightarrow> grid"
  uv_grid_from_vrtdiv_spec :: "spec \<Rightarrow> spec \<Rightarrow> grid \<times> grid"
  vrtdiv_spec_from_uv_grid :: "grid \<Rightarrow> grid \<Rightarrow> spec \<times> spec"
  wavenumbers :: "nat list \<times> nat list"
  grid_latlon :: "real list \<times> real list"
  radius :: real

subsection \<open>The model state\<close>

datatype datetime = Datetime int

datatype error = IndexError | ZeroDivisionError | NonFinite

record model =
  nlat :: nat
  nlon :: nat
  robert_coefficient :: real
  engine :: engine
  damping :: "real list"
  u_grid :: grid
  v_grid :: grid
  vrt_grid :: grid
  vrt_spec :: spec
  vrt_spec_prev :: spec
  f :: "real list"
  start_time :: datetime
  t :: real
  dt :: real
  first_step :: bool

subsection \<open>Damping coefficients (\<open>__init__\<close>, lines 81 to 84)\<close>

text \<open>
  \<open>el = (m + n) * (m + n + 1) / float(radius) ** 2\<close>, element-wise over the two integer
  arrays returned by \<open>wavenumbers()\<close>.
\<close>

definition el :: "engine \<Rightarrow> real list" where
  "el E = (case wavenumbers E of (ms, ns) \<Rightarrow>
     map2 (\<lambda>m n. real ((m + n) * (m + n + 1)) / (radius E) ^ 2) ms ns)"

text \<open>
  \<open>damping_coefficient * (el / el[truncation]) ** damping_order\<close>. Reading
  \<open>el[truncation]\<close> beyond the array raises \<open>IndexError\<close>. A zero radius or a zero
  \<open>el[truncation]\<close> makes numpy divide by zero, which gives infinities or NaN rather than
  an exception: that outcome is \<open>NonFinite\<close> here. The damping order is a natural number.
\<close>

definition damping_coefficients :: "engine \<Rightarrow> nat \<Rightarrow> real \<Rightarrow> nat \<Rightarrow> error + real list" where
  "damping_coefficients E truncation damping_coefficient damping_order =
     (if length (el E) \<le> truncation then Inl IndexError
      else if radius E = 0 \<or> el E ! truncation = 0 then Inl NonFinite
      else Inr (map (\<lambda>e. damping_coefficient * (e / el E ! truncation) ^ damping_order) (el E)))"

subsection \<open>\<open>set_state\<close> (lines 112 to 139)\<close>

definition set_state :: "model \<Rightarrow> grid \<Rightarrow> model" where
  "set_state s vrt =
     (let s1 = s\<lparr>vrt_spec := grid_to_spec (engine s) vrt\<rparr>;
          s2 = s1\<lparr>vrt_grid := spec_to_grid (engine s1) (vrt_spec s1)\<rparr>;
          uv = uv_grid_from_vrtdiv_spec (engine s2) (vrt_spec s2) (zeros_like (vrt_spec s2));
          s3 = s2\<lparr>u_grid := fst uv, v_grid := snd uv\<rparr>
      in s3\<lparr>vrt_spec_prev := vrt_spec s3\<rparr>)"

subsection \<open>\<open>__init__\<close> (lines 37 to 101)\<close>

text \<open>
  \<open>self.f = 2 * 7.29e-5 * np.sin(np.deg2rad(lats))[:, np.newaxis]\<close>, with
  \<open>deg2rad(x) = x * (pi / 180)\<close>.
\<close>

definition coriolis :: "real list \<Rightarrow> real list" where
  "coriolis lats = map (\<lambda>lat. 2 * (729 / 10 ^ 7) * sin (lat * (pi / 180))) lats"

text \<open>
  The constructor receives the class \<open>TransformsEngine\<close> as the function that builds an
  engine from \<open>nlon\<close>, \<open>nlat\<close> and the truncation. The buffers are created as zeros and
  then filled by \<open>set_state\<close>; the Coriolis field and the time control attributes, which
  the source assigns after that call, are not read by \<open>set_state\<close>.
\<close>

definition init ::
  "(nat \<Rightarrow> nat \<Rightarrow> nat \<Rightarrow> engine) \<Rightarrow> grid \<Rightarrow> nat \<Rightarrow> real \<Rightarrow> datetime \<Rightarrow> real \<Rightarrow> real \<Rightarrow> nat
     \<Rightarrow> error + model" where
  "init TransformsEngine vrt truncation dt0 start robert damping_coefficient damping_order =
     (let nlat0 = length vrt;
          nlon0 = (case vrt of [] \<Rightarrow> 0 | row # _ \<Rightarrow> length row);
          E = TransformsEngine nlon0 nlat0 truncation
      in case damping_coefficients E truncation damping_coefficient damping_order of
           Inl e \<Rightarrow> Inl e
         | Inr ds \<Rightarrow>
             (let nspec = (truncation + 1) * (truncation + 2) div 2;
                  s = \<lparr>nlat = nlat0, nlon = nlon0, robert_coefficient = robert,
                       engine = E, damping = ds,
                       u_grid = replicate nlat0 (replicate nlon0 0),
                       v_grid = replicate nlat0 (replicate nlon0 0),
                       vrt_grid = replicate nlat0 (replicate nlon0 0),
                       vrt_spec = replicate nspec 0,
                       vrt_spec_prev = replicate nspec 0,
                       f = coriolis (fst (grid_latlon E)),
                       start_time = start, t = 0, dt = dt0, first_step = True\<rparr>
              in Inr (set_state s vrt)))"

subsection \<open>\<open>step_forward\<close> (lines 141 to 173)\<close>

text \<open>Lines 147 to 149: the spectral vorticity tendency of the forcing.\<close>

definition raw_tendency :: "model \<Rightarrow> spec" where
  "raw_tendency s =
     (let dudt = grid_mul (column_add (f s) (vrt_grid s)) (v_grid s);
          dvdt = grid_mul (grid_neg (column_add (f s) (vrt_grid s))) (u_grid s)
      in fst (vrtdiv_spec_from_uv_grid (engine s) dudt dvdt))"

text \<open>Lines 150 and 151: the tendency with the damping term.\<close>

definition damped_tendency :: "model \<Rightarrow> spec" where
  "damped_tendency s =
     (let coeffs = map (\<lambda>d. 1 / (1 + d * dt s)) (damping s)
      in rmul coeffs (vsub (raw_tendency s) (rmul (damping s) (vrt_spec_prev s))))"

definition step_forward :: "model \<Rightarrow> model" where
  "step_forward s =
     (let dt' = (if first_step s then dt s else 2 * dt s);
          dzetadt = damped_tendency s;
          r = robert_coefficient s;
          sn = (if first_step s then
                  (let new_vrt_spec = vadd (vrt_spec s) (scal dt' dzetadt)
                   in (s\<lparr>vrt_spec := vadd (vrt_spec s) (scal r (vsub new_vrt_spec (vrt_spec s))),
                         first_step := False\<rparr>,
                       new_vrt_spec))
                else
                  (let s' = s\<lparr>vrt_spec :=
                              vadd (vrt_spec s) (scal r (vsub (vrt_spec_prev s) (scal 2 (vrt_spec s))))\<rparr>;
                       new_vrt_spec = vadd (vrt_spec_prev s') (scal dt' dzetadt)
                   in (s'\<lparr>vrt_spec := vadd (vrt_spec s') (scal r new_vrt_spec)\<rparr>, new_vrt_spec)));
          s1 = fst sn;
          new_vrt_spec = snd sn;
          s2 = s1\<lparr>vrt_spec_prev := vrt_spec s1\<rparr>;
          s3 = s2\<lparr>vrt_spec := new_vrt_spec\<rparr>;
          s4 = s3\<lparr>vrt_grid := spec_to_grid (engine s3) new_vrt_spec\<rparr>;
          uv = uv_grid_from_vrtdiv_spec (engine s4) new_vrt_spec (zeros_like new_vrt_spec);
          s5 = s4\<lparr>u_grid := fst uv, v_grid := snd uv\<rparr>
      in s5\<lparr>t := t s5 + dt s5\<rparr>)"

subsection \<open>\<open>run_with_snapshots\<close> (lines 175 to 207)\<close>

text \<open>
  The generator is consumed to its end. The result holds the values it yields in order,
  the final value of the loop counter \<open>n\<close>, which the loop increases by one with each call
  of \<open>step_forward\<close>, and the model it leaves behind. The test
  \<open>self.t > snapshot_start and n % step_interval == 0\<close> evaluates the remainder only when
  the comparison holds, and the remainder by zero raises \<open>ZeroDivisionError\<close>.
\<close>

function rws_loop ::
  "int \<Rightarrow> int \<Rightarrow> real \<Rightarrow> int \<Rightarrow> model \<Rightarrow> real list \<Rightarrow> error + (real list \<times> int \<times> model)" where
  "rws_loop target_steps step_interval snapshot_start n s ys =
     (if n \<le> target_steps then
        (if t (step_forward s) > snapshot_start then
           (if step_interval = 0 then Inl ZeroDivisionError
            else if (n + 1) mod step_interval = 0 then
              rws_loop target_steps step_interval snapshot_start (n + 1) (step_forward s)
                (ys @ [t (step_forward s)])
            else rws_loop target_steps step_interval snapshot_start (n + 1) (step_forward s) ys)
         else rws_loop target_steps step_interval snapshot_start (n + 1) (step_forward s) ys)
      else Inr (ys, n, s))"
  by pat_completeness auto
termination
  by (relation "measure (\<lambda>(target_steps, step_interval, snapshot_start, n, s, ys).
        nat (target_steps + 1 - n))") auto

text \<open>
  \<open>snapshot_interval or self.dt\<close> replaces \<open>None\<close> and zero by \<open>dt\<close>. The two quotients are
  divisions of Python numbers, which raise \<open>ZeroDivisionError\<close> when \<open>dt\<close> is zero. The local
  \<open>start_time = self.t\<close> of the source is never read.
\<close>

definition run_with_snapshots ::
  "model \<Rightarrow> real \<Rightarrow> real \<Rightarrow> real option \<Rightarrow> error + (real list \<times> int \<times> model)" where
  "run_with_snapshots s run_time snapshot_start snapshot_interval =
     (let si0 = (case snapshot_interval of None \<Rightarrow> dt s
                 | Some x \<Rightarrow> if x = 0 then dt s else x);
          si = (if si0 < dt s then dt s else si0)
      in if dt s = 0 then Inl ZeroDivisionError
         else rws_loop \<lceil>(t s + run_time) / dt s\<rceil> \<lceil>si / dt s\<rceil> snapshot_start 0 s [])"

declare rws_loop.simps [simp del]

section \<open>Definitions that follow the specification\<close>

text \<open>
  The standard Robert-Asselin filter as one formula, in the words of the specification:
  \<open>current + robert_coefficient \<cdot> (previous - 2\<cdot>current + new)\<close>.
\<close>

definition robert_asselin :: "real \<Rightarrow> spec \<Rightarrow> spec \<Rightarrow> spec \<Rightarrow> spec" where
  "robert_asselin r previous current new =
     vadd current (scal r (vadd (vsub previous (scal 2 current)) new))"

text \<open>
  The implicitly damped tendency of one spectral index, in the words of the specification:
  \<open>(1/(1 + damping\<cdot>dt)) \<cdot> (tendency - damping \<cdot> vrt_spec_prev)\<close>.
\<close>

definition implicit_damping :: "real \<Rightarrow> real \<Rightarrow> complex \<Rightarrow> complex \<Rightarrow> complex" where
  "implicit_damping d step tendency previous =
     complex_of_real (1 / (1 + d * step)) * (tendency - complex_of_real d * previous)"

text \<open>
  The Laplacian eigenvalue of the specification for zonal wavenumber \<open>m\<close> and total
  wavenumber \<open>n\<close>: \<open>(m+n)(m+n+1) / R\<^sup>2\<close>.
\<close>

definition laplacian_eigenvalue :: "real \<Rightarrow> nat \<Rightarrow> nat \<Rightarrow> real" where
  "laplacian_eigenvalue R m n = real ((m + n) * (m + n + 1)) / R ^ 2"

text \<open>
  The consistency of the grid fields with the current spectral vorticity: the grid
  vorticity is its inverse transform and the wind is derived from it with zero divergence.
\<close>

definition consistent :: "model \<Rightarrow> bool" where
  "consistent s \<longleftrightarrow>
     vrt_grid s = spec_to_grid (engine s) (vrt_spec s) \<and>
     (u_grid s, v_grid s) =
       uv_grid_from_vrtdiv_spec (engine s) (vrt_spec s) (zeros_like (vrt_spec s))"

text \<open>The public operations that change a constructed model, and a run of them.\<close>

datatype operation = SetState grid | StepForward

fun apply_operation :: "model \<Rightarrow> operation \<Rightarrow> model" where
  "apply_operation s (SetState g) = set_state s g"
| "apply_operation s StepForward = step_forward s"

section \<open>Float64 arithmetic\<close>

text \<open>
  A float64 operation returns the exact result rounded to the nearest double, ties going
  to the even significand. For a positive \<open>x\<close>, \<open>binary_exponent\<close> finds the exponent \<open>e\<close>
  with \<open>2\<^sup>e \<le> x < 2\<^sup>e\<^sup>+\<^sup>1\<close> by halving or doubling; the exponent of a double lies between -1074
  and 1023, so 1100 rounds suffice. Neighbouring doubles of that exponent are \<open>2\<^sup>e\<^sup>-\<^sup>5\<^sup>2\<close>
  apart, and below \<open>2\<^sup>-\<^sup>1\<^sup>0\<^sup>2\<^sup>2\<close> the spacing stays \<open>2\<^sup>-\<^sup>1\<^sup>0\<^sup>7\<^sup>4\<close>. Results beyond the largest double,
  which the machine turns into infinities, are not represented.
\<close>

fun binary_exponent :: "nat \<Rightarrow> real \<Rightarrow> int" where
  "binary_exponent 0 x = 0"
| "binary_exponent (Suc fuel) x =
     (if 2 \<le> x then binary_exponent fuel (x / 2) + 1
      else if x < 1 then binary_exponent fuel (2 * x) - 1
      else 0)"

definition pow2 :: "int \<Rightarrow> real" where
  "pow2 e = (if 0 \<le> e then 2 ^ nat e else 1 / 2 ^ nat (- e))"

definition round_half_even :: "real \<Rightarrow> int" where
  "round_half_even y =
     (if y - of_int \<lfloor>y\<rfloor> < 1 / 2 then \<lfloor>y\<rfloor>
      else if 1 / 2 < y - of_int \<lfloor>y\<rfloor> then \<lfloor>y\<rfloor> + 1
      else if even \<lfloor>y\<rfloor> then \<lfloor>y\<rfloor> else \<lfloor>y\<rfloor> + 1)"

definition fl64 :: "real \<Rightarrow> real" where
  "fl64 x =
     (if x = 0 then 0
      else (let e = max (binary_exponent 1100 \<bar>x\<bar>) (- 1022); ulp = pow2 (e - 52)
            in sgn x * (of_int (round_half_even (\<bar>x\<bar> / ulp)) * ulp)))"

definition fadd :: "real \<Rightarrow> real \<Rightarrow> real" where
  "fadd x y = fl64 (x + y)"

definition fsub :: "real \<Rightarrow> real \<Rightarrow> real" where
  "fsub x y = fl64 (x - y)"

definition fmul :: "real \<Rightarrow> real \<Rightarrow> real" where
  "fmul x y = fl64 (x * y)"

text \<open>
  The clock in float64. The constructor sets \<open>self.t = 0\<close> (line 99) and every call of
  \<open>step_forward\<close> ends with \<open>self.t += self.dt\<close> (line 173); nothing else writes \<open>t\<close> or
  \<open>dt\<close>, and the addition reads nothing else. So the clock after \<open>k\<close> calls is \<open>k\<close> rounded
  additions of the time step to 0.
\<close>

definition clock_f64 :: "nat \<Rightarrow> real \<Rightarrow> real" where
  "clock_f64 k step = ((\<lambda>elapsed. fadd elapsed step) ^^ k) 0"

text \<open>
  The leapfrog branch in float64, lines 161 to 164, on the real part of one spectral
  coefficient: \<open>current += r * (previous - 2. * current)\<close>, then
  \<open>new = previous + dt * dzetadt\<close> with the doubled step, then \<open>current += r * new\<close>. The
  scalars \<open>r\<close>, \<open>2.\<close> and \<open>dt\<close> are real, so the imaginary part of a coefficient follows the
  same equations. The result is the filtered current level and the new level.
\<close>

definition leapfrog_filter_f64 ::
  "real \<Rightarrow> real \<Rightarrow> real \<Rightarrow> real \<Rightarrow> real \<Rightarrow> real \<times> real" where
  "leapfrog_filter_f64 r step2 previous current dzetadt =
     (let current1 = fadd current (fmul r (fsub previous (fmul 2 current)));
          new = fadd previous (fmul step2 dzetadt)
      in (fadd current1 (fmul r new), new))"

text \<open>
  The combined formula of the specification,
  \<open>current + robert_coefficient \<cdot> (previous - 2\<cdot>current + new)\<close>, evaluated in float64 from
  left to right.
\<close>

definition robert_asselin_f64 :: "real \<Rightarrow> real \<Rightarrow> real \<Rightarrow> real \<Rightarrow> real" where
  "robert_asselin_f64 r previous current new =
     fadd current (fmul r (fadd (fsub previous (fmul 2 current)) new))"

section \<open>A small engine and model for concrete evaluation\<close>

text \<open>
  The engine below works on grids of three latitudes and two longitudes and on three
  spectral coefficients, the size of truncation 1. A grid row \<open>[x, y]\<close> and the complex
  number \<open>x + iy\<close> stand for each other. Its wavenumber arrays list the pairs \<open>(m, n)\<close> with
  \<open>m \<le> n \<le> 1\<close> by \<open>m\<close> and then by \<open>n\<close>, so that index \<open>truncation\<close> holds \<open>(0, T)\<close>.
\<close>

definition test_engine :: engine where
  "test_engine =
     \<lparr>grid_to_spec = (\<lambda>g. map (\<lambda>row. case row of [x, y] \<Rightarrow> Complex x y | _ \<Rightarrow> 0) g),
      spec_to_grid = (\<lambda>zs. map (\<lambda>z. [Re z, Im z]) zs),
      uv_grid_from_vrtdiv_spec =
        (\<lambda>vs ds. (map (\<lambda>z. [Im z, Re z]) vs, map (\<lambda>z. [Re z, - Im z]) vs)),
      vrtdiv_spec_from_uv_grid =
        (\<lambda>u v. (map2 (\<lambda>a b. Complex (sum_list a) (sum_list b)) u v, map (\<lambda>_. 0) u)),
      wavenumbers = ([0, 0, 1], [0, 1, 1]),
      grid_latlon = ([90, 0, - 90], [0, 180]),
      radius = 2\<rparr>"

text \<open>
  The same engine with the wavenumber arrays of truncation 3, in the same order, and the
  radius of the Earth in metres.
\<close>

definition test_engine_T3 :: engine where
  "test_engine_T3 = test_engine
     \<lparr>wavenumbers := ([0, 0, 0, 0, 1, 1, 1, 2, 2, 3], [0, 1, 2, 3, 1, 2, 3, 2, 3, 3]),
      radius := 6371200\<rparr>"

text \<open>
  The damping vector of that engine for truncation 3 with the default damping coefficient
  \<open>1e-4\<close> and the default damping order 4.
\<close>

definition test_damping_T3 :: "real list" where
  "test_damping_T3 =
     (case damping_coefficients test_engine_T3 3 (1 / 10 ^ 4) 4 of Inl _ \<Rightarrow> [] | Inr ds \<Rightarrow> ds)"

text \<open>
  The model that the constructor builds from \<open>test_engine\<close>, the vorticity field
  \<open>[[1, 0], [0, 2], [0, 0]]\<close>, truncation 1, time step 10, Robert coefficient \<open>1/25\<close>,
  damping coefficient \<open>1/10\<close> and damping order 2.
\<close>

definition test_model :: model where
  "test_model =
     \<lparr>nlat = 3, nlon = 2, robert_coefficient = 1 / 25, engine = test_engine,
      damping = [0, 1 / 10, 9 / 10],
      u_grid = [[0, 1], [2, 0], [0, 0]],
      v_grid = [[1, 0], [0, - 2], [0, 0]],
      vrt_grid = [[1, 0], [0, 2], [0, 0]],
      vrt_spec = [Complex 1 0, Complex 0 2, Complex 0 0],
      vrt_spec_prev = [Complex 1 0, Complex 0 2, Complex 0 0],
      f = [729 / 5000000, 0, - (729 / 5000000)],
      start_time = Datetime 0, t = 0, dt = 10, first_step = True\<rparr>"

section \<open>Basic facts about the operations\<close>

subsection \<open>One step\<close>

lemma step_forward_t: "t (step_forward s) = t s + dt s"
  by (simp add: step_forward_def Let_def)

lemma step_forward_dt: "dt (step_forward s) = dt s"
  by (simp add: step_forward_def Let_def)

lemma step_forward_first_step: "first_step (step_forward s) = False"
  by (simp add: step_forward_def Let_def)

lemma step_forward_robert: "robert_coefficient (step_forward s) = robert_coefficient s"
  by (simp add: step_forward_def Let_def)

lemma step_forward_vrt_spec:
  "vrt_spec (step_forward s) =
     (if first_step s then vadd (vrt_spec s) (scal (dt s) (damped_tendency s))
      else vadd (vrt_spec_prev s) (scal (2 * dt s) (damped_tendency s)))"
  by (simp add: step_forward_def Let_def)

lemma step_forward_vrt_spec_prev:
  "vrt_spec_prev (step_forward s) =
     (if first_step s then
        vadd (vrt_spec s)
          (scal (robert_coefficient s) (vsub (vrt_spec (step_forward s)) (vrt_spec s)))
      else
        vadd (vadd (vrt_spec s)
                (scal (robert_coefficient s) (vsub (vrt_spec_prev s) (scal 2 (vrt_spec s)))))
          (scal (robert_coefficient s) (vrt_spec (step_forward s))))"
  by (simp add: step_forward_def Let_def)

lemma step_forward_consistent: "consistent (step_forward s)"
  by (simp add: consistent_def step_forward_def Let_def)

subsection \<open>Several steps\<close>

lemma steps_dt: "dt ((step_forward ^^ k) s) = dt s"
  by (induction k) (simp_all add: step_forward_dt)

lemma steps_t: "t ((step_forward ^^ k) s) = t s + real k * dt s"
  by (induction k) (simp_all add: step_forward_t steps_dt algebra_simps)

lemma steps_first_step: "first_step ((step_forward ^^ Suc k) s) = False"
  by (simp add: step_forward_first_step)

subsection \<open>Setting the state and constructing\<close>





lemma set_state_consistent: "consistent (set_state s g)"
  by (simp add: consistent_def set_state_def Let_def)

lemma init_fields:
  assumes "init TE vrt T dt0 st r dc ord = Inr s0"
  shows "t s0 = 0" "dt s0 = dt0" "first_step s0" "robert_coefficient s0 = r"
    "engine s0 = TE (case vrt of [] \<Rightarrow> 0 | row # _ \<Rightarrow> length row) (length vrt) T"
    "damping_coefficients (engine s0) T dc ord = Inr (damping s0)"
    "start_time s0 = st"
  using assms by (auto simp: init_def Let_def set_state_def split: sum.splits)

lemma init_consistent: "init TE vrt T dt0 st r dc ord = Inr s0 \<Longrightarrow> consistent s0"
  by (auto simp: init_def Let_def set_state_consistent split: sum.splits)

lemma foldl_consistent: "consistent s \<Longrightarrow> consistent (foldl apply_operation s ops)"
proof (induction ops arbitrary: s)
  case Nil
  then show ?case by simp
next
  case (Cons x ops)
  have "consistent (apply_operation s x)"
    by (cases x) (simp_all add: set_state_consistent step_forward_consistent)
  then show ?case using Cons.IH by simp
qed

subsection \<open>The concrete model\<close>

lemma test_damping:
  "damping_coefficients test_engine 1 (1 / 10) 2 = Inr [0, 1 / 10, 9 / 10]"
  by (simp add: damping_coefficients_def el_def power2_eq_square test_engine_def)

lemma init_test:
  "init (\<lambda>_ _ _. test_engine) [[1, 0], [0, 2], [0, 0]] 1 10 (Datetime 0) (1 / 25) (1 / 10) 2
     = Inr test_model"
  apply (simp only: init_def Let_def test_damping sum.case)
  apply (simp add: set_state_def Let_def test_model_def coriolis_def zeros_like_def)
  apply (simp add: test_engine_def)
  done

lemma raw_test:
  "raw_tendency test_model =
     [Complex (1 + 729 / 5000000) (- (729 / 5000000)), Complex (- 4) 0, Complex 0 0]"
  by (simp add: raw_tendency_def Let_def test_model_def column_add_def grid_mul_def
      grid_neg_def test_engine_def)

lemma step1_test:
  "vrt_spec (step_forward test_model) ! 1 = Complex (- 20) 1 \<and>
   vrt_spec_prev (step_forward test_model) ! 1 = Complex (- (4 / 5)) (49 / 25)"
  apply (simp add: step_forward_vrt_spec step_forward_vrt_spec_prev damped_tendency_def
      raw_test Let_def)
  apply (simp add: test_model_def vadd_def vsub_def scal_def rmul_def complex_eq_iff)
  done

section \<open>Float64 evaluation\<close>

lemmas fl64_eval = fl64_def eval_nat_numeral pow2_def round_half_even_def Let_def

text \<open>Halfway between two doubles the one with the even significand is taken.\<close>

lemma fl64_ties_to_even:
  "fl64 (1 + 1 / 2 ^ 53) = 1"
  "fl64 (1 + 3 / 2 ^ 53) = 1 + 1 / 2 ^ 51"
  by (simp_all add: fl64_eval)

text \<open>The doubles written \<open>0.1\<close> and \<open>0.04\<close> in Python.\<close>

lemma f64_constants:
  "fl64 (1 / 10) = 3602879701896397 / 36028797018963968"
  "fl64 (4 / 100) = 5764607523034235 / 144115188075855872"
  by (simp_all add: fl64_eval)

text \<open>Six additions of the double \<open>0.1\<close> to the clock, and its sixfold.\<close>

lemma f64_clock_sums:
  "fadd 0 (3602879701896397 / 36028797018963968) = 3602879701896397 / 36028797018963968"
  "fadd (3602879701896397 / 36028797018963968) (3602879701896397 / 36028797018963968) = 3602879701896397 / 18014398509481984"
  "fadd (3602879701896397 / 18014398509481984) (3602879701896397 / 36028797018963968) = 1351079888211149 / 4503599627370496"
  "fadd (1351079888211149 / 4503599627370496) (3602879701896397 / 36028797018963968) = 3602879701896397 / 9007199254740992"
  "fadd (3602879701896397 / 9007199254740992) (3602879701896397 / 36028797018963968) = 1 / 2"
  "fadd (1 / 2) (3602879701896397 / 36028797018963968) = 5404319552844595 / 9007199254740992"
  "fmul 6 (3602879701896397 / 36028797018963968) = 1351079888211149 / 2251799813685248"
  by (simp_all add: fadd_def fmul_def fl64_eval)

text \<open>
  The roundings of the leapfrog filter and of the combined formula for the previous level
  \<open>0.1\<close>, the current level \<open>1.0\<close>, the tendency \<open>0.1\<close>, the doubled step \<open>1.0\<close> and the
  Robert coefficient \<open>0.04\<close>.
\<close>

lemma f64_filter_roundings:
  "fmul 2 1 = 2"
  "fsub (3602879701896397 / 36028797018963968) 2 = - (4278419646001971 / 2251799813685248)"
  "fmul (5764607523034235 / 144115188075855872) (- (4278419646001971 / 2251799813685248)) = - (5476377146882523 / 72057594037927936)"
  "fadd 1 (- (5476377146882523 / 72057594037927936)) = 8322652111380677 / 9007199254740992"
  "fmul 1 (3602879701896397 / 36028797018963968) = 3602879701896397 / 36028797018963968"
  "fadd (3602879701896397 / 36028797018963968) (3602879701896397 / 36028797018963968) = 3602879701896397 / 18014398509481984"
  "fmul (5764607523034235 / 144115188075855872) (3602879701896397 / 18014398509481984) = 1152921504606847 / 144115188075855872"
  "fadd (8322652111380677 / 9007199254740992) (1152921504606847 / 144115188075855872) = 8394709705418605 / 9007199254740992"
  "fadd (- (4278419646001971 / 2251799813685248)) (3602879701896397 / 18014398509481984) = - (7656119366529843 / 4503599627370496)"
  "fmul (5764607523034235 / 144115188075855872) (- (7656119366529843 / 4503599627370496)) = - (1224979098644775 / 18014398509481984)"
  "fadd 1 (- (1224979098644775 / 18014398509481984)) = 2098677426354651 / 2251799813685248"
  by (simp_all add: fadd_def fsub_def fmul_def fl64_eval)

lemma clock_f64_0: "clock_f64 0 d = 0"
  by (simp add: clock_f64_def)

lemma clock_f64_step: "clock_f64 k d = a \<Longrightarrow> fadd a d = b \<Longrightarrow> clock_f64 (Suc k) d = b"
  by (simp add: clock_f64_def)

lemmas clock_tenth_1 = clock_f64_step[OF clock_f64_0 f64_clock_sums(1)]
lemmas clock_tenth_2 = clock_f64_step[OF clock_tenth_1 f64_clock_sums(2)]
lemmas clock_tenth_3 = clock_f64_step[OF clock_tenth_2 f64_clock_sums(3)]
lemmas clock_tenth_4 = clock_f64_step[OF clock_tenth_3 f64_clock_sums(4)]
lemmas clock_tenth_5 = clock_f64_step[OF clock_tenth_4 f64_clock_sums(5)]
lemmas clock_tenth_6 = clock_f64_step[OF clock_tenth_5 f64_clock_sums(6)]

text \<open>
  When every multiple of the time step up to the \<open>k\<close>-th is a double, the float64 clock
  after \<open>k\<close> calls is exactly \<open>k\<close> times the time step.
\<close>

lemma clock_f64_exact:
  "list_all (\<lambda>j. fl64 (real j * d) = real j * d) [0..<Suc k] \<Longrightarrow> clock_f64 k d = real k * d"
proof (induction k)
  case 0
  show ?case by (simp add: clock_f64_def)
next
  case (Suc k)
  from Suc.prems have a: "list_all (\<lambda>j. fl64 (real j * d) = real j * d) [0..<Suc k]"
    and b: "fl64 (real (Suc k) * d) = real (Suc k) * d"
    by simp_all
  have "clock_f64 (Suc k) d = fl64 (real k * d + d)"
    using Suc.IH[OF a] by (simp add: clock_f64_def fadd_def)
  also have "real k * d + d = real (Suc k) * d"
    by (simp add: algebra_simps)
  finally show ?case using b by simp
qed

lemma multiples_of_ten_are_doubles:
  "list_all (\<lambda>j. fl64 (real j * 10) = real j * 10) [0..<Suc 3]"
  by (simp add: upt_conv_Cons fl64_eval)

section \<open>The time integration\<close>

subsection \<open>The Robert-Asselin filter of the leapfrog step\<close>

text \<open>
  In exact arithmetic the two additions of the source amount to one addition of the
  combined increment.
\<close>

lemma filter_split:
  "vadd (vadd a (scal r (vsub b (scal 2 a)))) (scal r c) =
     vadd a (scal r (vadd (vsub b (scal 2 a)) c))"
proof (induction a arbitrary: b c)
  case Nil
  then show ?case by (simp add: vadd_def vsub_def scal_def)
next
  case (Cons x a)
  show ?case
  proof (cases b)
    case Nil
    then show ?thesis by (simp add: vadd_def vsub_def scal_def)
  next
    case bc: (Cons y b')
    show ?thesis
    proof (cases c)
      case Nil
      then show ?thesis by (simp add: vadd_def vsub_def scal_def bc)
    next
      case (Cons z c')
      with bc Cons.IH[of b' c'] show ?thesis
        by (simp add: vadd_def vsub_def scal_def algebra_simps)
    qed
  qed
qed

text \<open>
  Claim C1, as stated, fails in the arithmetic of the source. Take the previous level
  \<open>0.1\<close>, the current level \<open>1.0\<close>, the tendency \<open>0.1\<close>, \<open>dt = 0.5\<close> and so the doubled step
  \<open>1.0\<close>, and the Robert coefficient \<open>0.04\<close>. The three operations of the source give the new
  level \<open>0.2\<close> and the filtered current level \<open>0.932\<close>, the double
  \<open>8394709705418605 / 2\<^sup>5\<^sup>3\<close>. The combined formula gives \<open>0.9319999999999999\<close>, the double
  \<open>2098677426354651 / 2\<^sup>5\<^sup>1\<close>, when it is evaluated in float64, and another number again
  when it is evaluated exactly on these doubles.
\<close>

theorem leapfrog_filter_float64_counterexample:
  "leapfrog_filter_f64 (fl64 (4 / 100)) 1 (fl64 (1 / 10)) 1 (fl64 (1 / 10)) = (8394709705418605 / 9007199254740992, 3602879701896397 / 18014398509481984) \<and>
   robert_asselin_f64 (fl64 (4 / 100)) (fl64 (1 / 10)) 1 (3602879701896397 / 18014398509481984) = 2098677426354651 / 2251799813685248 \<and>
   fst (leapfrog_filter_f64 (fl64 (4 / 100)) 1 (fl64 (1 / 10)) 1 (fl64 (1 / 10))) \<noteq>
     robert_asselin_f64 (fl64 (4 / 100)) (fl64 (1 / 10)) 1
       (snd (leapfrog_filter_f64 (fl64 (4 / 100)) 1 (fl64 (1 / 10)) 1 (fl64 (1 / 10)))) \<and>
   fst (leapfrog_filter_f64 (fl64 (4 / 100)) 1 (fl64 (1 / 10)) 1 (fl64 (1 / 10))) \<noteq>
     1 + fl64 (4 / 100) * (fl64 (1 / 10) - 2 * 1 +
       snd (leapfrog_filter_f64 (fl64 (4 / 100)) 1 (fl64 (1 / 10)) 1 (fl64 (1 / 10))))"
  unfolding f64_constants leapfrog_filter_f64_def robert_asselin_f64_def Let_def
  by (simp add: f64_filter_roundings)

text \<open>
  Claim C1, amended. On every call of \<open>step_forward\<close> after the first, that is when the
  first-step flag is off, the new spectral vorticity is \<open>previous + 2\<cdot>dt\<cdot>tendency'\<close>, and
  the filtered current level, which the call stores as the previous level, is
  \<open>(current + robert_coefficient \<cdot> (previous - 2\<cdot>current)) + robert_coefficient \<cdot> new\<close>, the
  two additions in the order of the source. In exact arithmetic this is the combined
  Robert-Asselin formula \<open>current + robert_coefficient \<cdot> (previous - 2\<cdot>current + new)\<close>; in
  float64 the two can differ by rounding.
\<close>

theorem steady_step_filter_two_additions:
  "\<not> first_step s \<Longrightarrow>
     vrt_spec (step_forward s) = vadd (vrt_spec_prev s) (scal (2 * dt s) (damped_tendency s)) \<and>
     vrt_spec_prev (step_forward s) =
       vadd (vadd (vrt_spec s)
               (scal (robert_coefficient s) (vsub (vrt_spec_prev s) (scal 2 (vrt_spec s)))))
         (scal (robert_coefficient s) (vrt_spec (step_forward s))) \<and>
     vadd (vadd (vrt_spec s)
             (scal (robert_coefficient s) (vsub (vrt_spec_prev s) (scal 2 (vrt_spec s)))))
       (scal (robert_coefficient s) (vrt_spec (step_forward s))) =
       robert_asselin (robert_coefficient s) (vrt_spec_prev s) (vrt_spec s)
         (vrt_spec (step_forward s))"
  by (simp add: step_forward_vrt_spec step_forward_vrt_spec_prev robert_asselin_def filter_split)

text \<open>The second step of the concrete model is such a call.\<close>

theorem steady_step_filter_two_additions_witness:
  "\<not> first_step (step_forward test_model) \<and>
     vrt_spec (step_forward (step_forward test_model)) =
       vadd (vrt_spec_prev (step_forward test_model))
         (scal (2 * 10) (damped_tendency (step_forward test_model))) \<and>
     vrt_spec_prev (step_forward (step_forward test_model)) =
       vadd (vadd (vrt_spec (step_forward test_model))
               (scal (1 / 25) (vsub (vrt_spec_prev (step_forward test_model))
                  (scal 2 (vrt_spec (step_forward test_model))))))
         (scal (1 / 25) (vrt_spec (step_forward (step_forward test_model))))"
  using steady_step_filter_two_additions [of "step_forward test_model"]
  by (simp add: step_forward_first_step step_forward_dt step_forward_robert test_model_def)

subsection \<open>The first step\<close>

text \<open>
  Claim C2. The first call of \<open>step_forward\<close> after construction finds the first-step flag
  on, computes \<open>new = current + dt\<cdot>tendency'\<close> with one \<open>dt\<close>, stores as previous level the
  current one filtered by \<open>current + robert_coefficient \<cdot> (new - current)\<close>, and turns the
  flag off; after any number of further calls the flag is still off and the next call
  computes \<open>new = previous + 2\<cdot>dt\<cdot>tendency'\<close>.
\<close>

theorem first_step_forward_difference:
  "init TE vrt T dt0 st r dc ord = Inr s0 \<Longrightarrow>
     first_step s0 \<and>
     vrt_spec (step_forward s0) = vadd (vrt_spec s0) (scal dt0 (damped_tendency s0)) \<and>
     vrt_spec_prev (step_forward s0) =
       vadd (vrt_spec s0) (scal r (vsub (vrt_spec (step_forward s0)) (vrt_spec s0))) \<and>
     \<not> first_step ((step_forward ^^ Suc k) s0) \<and>
     vrt_spec (step_forward ((step_forward ^^ Suc k) s0)) =
       vadd (vrt_spec_prev ((step_forward ^^ Suc k) s0))
         (scal (2 * dt0) (damped_tendency ((step_forward ^^ Suc k) s0)))"
proof -
  assume a: "init TE vrt T dt0 st r dc ord = Inr s0"
  note flds = init_fields(2,3,4)[OF a]
  have "vrt_spec (step_forward ((step_forward ^^ Suc k) s0)) =
       vadd (vrt_spec_prev ((step_forward ^^ Suc k) s0))
         (scal (2 * dt0) (damped_tendency ((step_forward ^^ Suc k) s0)))"
    using step_forward_vrt_spec[of "(step_forward ^^ Suc k) s0"] steps_first_step[of k s0]
      steps_dt[of "Suc k" s0] flds(1) by simp
  moreover have "\<not> first_step ((step_forward ^^ Suc k) s0)"
    using steps_first_step[of k s0] by simp
  ultimately show ?thesis
    using flds by (simp add: step_forward_vrt_spec step_forward_vrt_spec_prev)
qed

theorem first_step_forward_difference_witness:
  "init (\<lambda>_ _ _. test_engine) [[1, 0], [0, 2], [0, 0]] 1 10 (Datetime 0) (1 / 25) (1 / 10) 2
     = Inr test_model \<and>
   first_step test_model \<and>
   vrt_spec (step_forward test_model) =
     vadd (vrt_spec test_model) (scal 10 (damped_tendency test_model)) \<and>
   vrt_spec_prev (step_forward test_model) ! 1 = Complex (- (4 / 5)) (49 / 25) \<and>
   \<not> first_step ((step_forward ^^ Suc 2) test_model)"
  using init_test step1_test first_step_forward_difference [OF init_test, of 2] by simp

subsection \<open>The damped tendency\<close>

text \<open>
  Claim C3. On every call of \<open>step_forward\<close>, at every spectral index \<open>i\<close> the tendency that
  enters the integration formula is
  \<open>(1/(1 + damping\<^sub>i\<cdot>dt)) \<cdot> (raw_tendency\<^sub>i - damping\<^sub>i \<cdot> vrt_spec_prev\<^sub>i)\<close>, with the configured
  time step \<open>dt\<close> in the factor on the first step and on the later ones alike, and with the
  previous-level spectral vorticity. The index lies within the four arrays, and the
  denominator is not zero, so that the quotient is a number.
\<close>

theorem step_uses_implicitly_damped_tendency:
  assumes "i < length (damping s)" "i < length (raw_tendency s)"
    "i < length (vrt_spec_prev s)" "i < length (vrt_spec s)"
    "1 + damping s ! i * dt s \<noteq> 0"
  shows "damped_tendency s ! i =
           implicit_damping (damping s ! i) (dt s) (raw_tendency s ! i) (vrt_spec_prev s ! i) \<and>
         vrt_spec (step_forward s) ! i =
           (if first_step s
            then vrt_spec s ! i + complex_of_real (dt s) * damped_tendency s ! i
            else vrt_spec_prev s ! i + complex_of_real (2 * dt s) * damped_tendency s ! i)"
  using assms
  by (simp add: step_forward_vrt_spec implicit_damping_def damped_tendency_def rmul_def
      vsub_def vadd_def scal_def Let_def)

theorem step_uses_implicitly_damped_tendency_witness:
  "(1::nat) < length (damping test_model) \<and> 1 < length (raw_tendency test_model) \<and>
   1 < length (vrt_spec_prev test_model) \<and> 1 < length (vrt_spec test_model) \<and>
   1 + damping test_model ! 1 * dt test_model \<noteq> 0 \<and>
   damped_tendency test_model ! 1 = Complex (- 2) (- (1 / 10)) \<and>
   vrt_spec (step_forward test_model) ! 1 = Complex (- 20) 1"
proof -
  have h: "(1::nat) < length (damping test_model)" "1 < length (raw_tendency test_model)"
    "1 < length (vrt_spec_prev test_model)" "1 < length (vrt_spec test_model)"
    "1 + damping test_model ! 1 * dt test_model \<noteq> 0"
    by (simp_all add: raw_test) (simp_all add: test_model_def)
  have v: "damping test_model ! Suc 0 = 1 / 10" "dt test_model = 10"
    "raw_tendency test_model ! Suc 0 = Complex (- 4) 0"
    "vrt_spec_prev test_model ! Suc 0 = Complex 0 2" "vrt_spec test_model ! Suc 0 = Complex 0 2"
    "first_step test_model"
    by (simp_all add: raw_test) (simp_all add: test_model_def)
  show ?thesis
    using h step_uses_implicitly_damped_tendency [OF h]
    by (simp add: v implicit_damping_def complex_eq_iff)
qed

subsection \<open>The clock\<close>

text \<open>
  Claim C7, as stated, fails in the arithmetic of the source. With the time step \<open>0.1\<close> the
  clock after six calls is the double \<open>0.6\<close>, that is \<open>5404319552844595 / 2\<^sup>5\<^sup>3\<close>. Six times
  the time step is another number, both as the exact product and as the float64 product
  \<open>0.6000000000000001\<close>.
\<close>

theorem clock_float64_counterexample:
  "clock_f64 6 (fl64 (1 / 10)) = 5404319552844595 / 9007199254740992 \<and>
   6 * fl64 (1 / 10) = 10808639105689191 / 18014398509481984 \<and>
   fmul 6 (fl64 (1 / 10)) = 1351079888211149 / 2251799813685248 \<and>
   clock_f64 6 (fl64 (1 / 10)) \<noteq> 6 * fl64 (1 / 10) \<and>
   clock_f64 6 (fl64 (1 / 10)) \<noteq> fmul 6 (fl64 (1 / 10))"
proof -
  have six: "(6::nat) = Suc (Suc (Suc (Suc (Suc (Suc 0)))))"
    by simp
  show ?thesis
    unfolding f64_constants six by (simp add: clock_tenth_6 f64_clock_sums(7))
qed

text \<open>
  Claim C7, amended. The clock is 0 after construction, and the call of \<open>step_forward\<close> that
  follows \<open>k\<close> earlier ones adds the time step to it once, whichever formula the call used
  and for every \<open>k\<close>. The elapsed time after \<open>k\<close> calls is thus the result of \<open>k\<close> successive
  additions of \<open>dt\<close>; in float64 it is exactly \<open>k \<cdot> dt\<close> whenever every multiple \<open>j \<cdot> dt\<close> with
  \<open>j \<le> k\<close> is a double, as for a time step that is a whole number of seconds.
\<close>

theorem clock_advances_one_dt_per_call:
  "init TE vrt T dt0 st r dc ord = Inr s0 \<Longrightarrow>
     t s0 = 0 \<and> dt ((step_forward ^^ k) s0) = dt0 \<and>
     t (step_forward ((step_forward ^^ k) s0)) = t ((step_forward ^^ k) s0) + dt0 \<and>
     (list_all (\<lambda>j. fl64 (real j * dt0) = real j * dt0) [0..<Suc k] \<longrightarrow>
        clock_f64 k dt0 = real k * dt0)"
  by (simp add: step_forward_t steps_dt init_fields clock_f64_exact)

theorem clock_advances_one_dt_per_call_witness:
  "init (\<lambda>_ _ _. test_engine) [[1, 0], [0, 2], [0, 0]] 1 10 (Datetime 0) (1 / 25) (1 / 10) 2
     = Inr test_model \<and>
   t test_model = 0 \<and>
   t (step_forward ((step_forward ^^ 3) test_model)) = t ((step_forward ^^ 3) test_model) + 10 \<and>
   list_all (\<lambda>j. fl64 (real j * 10) = real j * 10) [0..<Suc 3] \<and>
   clock_f64 3 10 = 30"
  using init_test multiples_of_ten_are_doubles
    clock_advances_one_dt_per_call [OF init_test, of 3]
  by simp

section \<open>The damping coefficients\<close>

lemma el_nth:
  assumes "wavenumbers E = (ms, ns)" "i < length ms" "i < length ns"
  shows "el E ! i = laplacian_eigenvalue (radius E) (ms ! i) (ns ! i)"
  using assms by (simp add: el_def laplacian_eigenvalue_def)

lemma el_length:
  assumes "wavenumbers E = (ms, ns)"
  shows "length (el E) = min (length ms) (length ns)"
  using assms by (simp add: el_def)

lemma laplacian_eigenvalue_mono:
  "m + n \<le> m' + n' \<Longrightarrow> laplacian_eigenvalue R m n \<le> laplacian_eigenvalue R m' n'"
proof -
  assume "m + n \<le> m' + n'"
  then have "(m + n) * (m + n + 1) \<le> (m' + n') * (m' + n' + 1)"
    by (intro mult_le_mono) simp_all
  then have "real ((m + n) * (m + n + 1)) \<le> real ((m' + n') * (m' + n' + 1))"
    by (rule iffD2[OF of_nat_le_iff])
  then show ?thesis
    unfolding laplacian_eigenvalue_def by (rule divide_right_mono) simp
qed

lemma laplacian_eigenvalue_nonneg: "0 \<le> laplacian_eigenvalue R m n"
  by (simp add: laplacian_eigenvalue_def)

text \<open>
  Two spectral indices whose sums \<open>m + n\<close> differ get different damping coefficients when
  the configured coefficient and the order are positive. In a triangular basis of
  truncation \<open>T \<ge> 1\<close> the pairs \<open>(0, T)\<close> and \<open>(T, T)\<close> have the same total wavenumber and the
  sums \<open>T\<close> and \<open>2T\<close>, whatever the order in which the engine lists them.
\<close>

lemma damping_differs_with_wavenumber_sum:
  assumes ok: "damping_coefficients E T dc ord = Inr ds"
    and wn: "wavenumbers E = (ms, ns)" and len: "length ms = length ns"
    and i: "i < length ms" and j: "j < length ms"
    and lt: "ms ! i + ns ! i < ms ! j + ns ! j"
    and dc: "0 < dc" and ord: "0 < ord"
  shows "ds ! i < ds ! j"
proof -
  have ellen: "length (el E) = length ms"
    using el_length[OF wn] len by simp
  from ok have T: "T < length ms" and nz: "el E ! T \<noteq> 0" and R: "radius E \<noteq> 0"
    and ds: "ds = map (\<lambda>e. dc * (e / el E ! T) ^ ord) (el E)"
    using ellen by (auto simp: damping_coefficients_def split: if_splits)
  have elT: "el E ! T = laplacian_eigenvalue (radius E) (ms ! T) (ns ! T)"
    using el_nth[OF wn, of T] T len by simp
  have pos: "0 < el E ! T"
    using nz elT laplacian_eigenvalue_nonneg[of "radius E" "ms ! T" "ns ! T"] by simp
  have "(ms ! i + ns ! i) * (ms ! i + ns ! i + 1) < (ms ! j + ns ! j) * (ms ! j + ns ! j + 1)"
    using lt by (intro mult_strict_mono) auto
  then have "real ((ms ! i + ns ! i) * (ms ! i + ns ! i + 1))
      < real ((ms ! j + ns ! j) * (ms ! j + ns ! j + 1))"
    by (rule iffD2[OF of_nat_less_iff])
  then have "el E ! i < el E ! j"
    using el_nth[OF wn, of i] el_nth[OF wn, of j] i j len R
    by (simp add: laplacian_eigenvalue_def divide_strict_right_mono)
  then have "el E ! i / el E ! T < el E ! j / el E ! T"
    using pos by (simp add: divide_strict_right_mono)
  moreover have "0 \<le> el E ! i / el E ! T"
    using el_nth[OF wn, of i] i len laplacian_eigenvalue_nonneg[of "radius E" "ms ! i" "ns ! i"] pos
    by simp
  ultimately have "(el E ! i / el E ! T) ^ ord < (el E ! j / el E ! T) ^ ord"
    using ord by (simp add: power_strict_mono)
  then show ?thesis
    using ds i j ellen dc by simp
qed

lemma damping_T3:
  "damping_coefficients test_engine_T3 3 (1 / 10 ^ 4) 4 =
     Inr [0, 1 / 12960000, 1 / 160000, 1 / 10000, 1 / 160000, 1 / 10000,
          625 / 810000, 625 / 810000, 625 / 160000, 2401 / 160000]"
proof -
  have "el test_engine_T3 =
      map (\<lambda>k. k / 6371200 ^ 2) [0, 2, 6, 12, 6, 12, 20, 20, 30, 42]"
    by (simp add: el_def test_engine_T3_def test_engine_def)
  then show ?thesis
    by (simp add: damping_coefficients_def) (simp add: test_engine_T3_def power_divide)
qed

text \<open>
  Claim C4, as stated, fails. With the wavenumber arrays of truncation 3 and the default
  coefficient and order, index 7 holds \<open>(m, n) = (2, 2)\<close> and index 3 holds \<open>(0, 3)\<close>: the
  total wavenumber grows from 2 to 3 while the damping coefficient falls from
  \<open>625/810000\<close> to \<open>1/10000\<close>. Index 9 holds \<open>(3, 3)\<close>, of the truncation total wavenumber,
  and its coefficient \<open>2401/160000\<close> is not the configured \<open>1/10000\<close>.
\<close>

theorem damping_by_total_wavenumber_counterexample:
  "snd (wavenumbers test_engine_T3) ! 7 < snd (wavenumbers test_engine_T3) ! 3 \<and>
   test_damping_T3 ! 3 < test_damping_T3 ! 7 \<and>
   snd (wavenumbers test_engine_T3) ! 9 = 3 \<and>
   test_damping_T3 ! 9 \<noteq> 1 / 10 ^ 4"
  by (simp only: test_damping_T3_def damping_T3 sum.case) (simp add: test_engine_T3_def)

text \<open>
  Claim C4, amended. When the constructor obtains a damping vector, it has one entry per
  spectral index, the index \<open>truncation\<close> lies within it, and the entry at index \<open>i\<close> is the
  configured damping coefficient times the quotient of the eigenvalue
  \<open>(m\<^sub>i+n\<^sub>i)(m\<^sub>i+n\<^sub>i+1)/R\<^sup>2\<close> by the eigenvalue at array index \<open>truncation\<close>, raised to the damping
  order. Consequently, for a non-negative damping coefficient the entries do not decrease
  as the sum \<open>m + n\<close> grows, and every entry whose \<open>m + n\<close> equals that of array index
  \<open>truncation\<close>, this index among them, is exactly the configured damping coefficient.
\<close>

theorem damping_coefficients_by_wavenumber_sum:
  assumes ok: "damping_coefficients E T dc ord = Inr ds"
    and wn: "wavenumbers E = (ms, ns)" and len: "length ms = length ns"
  shows "length ds = length ms \<and> T < length ms \<and>
    (\<forall>i<length ms. ds ! i = dc *
        (laplacian_eigenvalue (radius E) (ms ! i) (ns ! i) /
         laplacian_eigenvalue (radius E) (ms ! T) (ns ! T)) ^ ord) \<and>
    (0 \<le> dc \<longrightarrow> (\<forall>i<length ms. \<forall>j<length ms.
        ms ! i + ns ! i \<le> ms ! j + ns ! j \<longrightarrow> ds ! i \<le> ds ! j)) \<and>
    (\<forall>i<length ms. ms ! i + ns ! i = ms ! T + ns ! T \<longrightarrow> ds ! i = dc)"
proof -
  have ellen: "length (el E) = length ms"
    using el_length[OF wn] len by simp
  from ok have T: "T < length ms" and nz: "el E ! T \<noteq> 0"
    and ds: "ds = map (\<lambda>e. dc * (e / el E ! T) ^ ord) (el E)"
    using ellen by (auto simp: damping_coefficients_def split: if_splits)
  have elT: "el E ! T = laplacian_eigenvalue (radius E) (ms ! T) (ns ! T)"
    using el_nth[OF wn, of T] T len by simp
  have nth: "ds ! i = dc *
        (laplacian_eigenvalue (radius E) (ms ! i) (ns ! i) /
         laplacian_eigenvalue (radius E) (ms ! T) (ns ! T)) ^ ord" if "i < length ms" for i
    using that ds ellen el_nth[OF wn, of i] len elT by simp
  have pos: "0 < laplacian_eigenvalue (radius E) (ms ! T) (ns ! T)"
    using nz elT laplacian_eigenvalue_nonneg[of "radius E" "ms ! T" "ns ! T"] by simp
  have mono: "ds ! i \<le> ds ! j"
    if "0 \<le> dc" "i < length ms" "j < length ms" "ms ! i + ns ! i \<le> ms ! j + ns ! j" for i j
  proof -
    have "laplacian_eigenvalue (radius E) (ms ! i) (ns ! i) /
            laplacian_eigenvalue (radius E) (ms ! T) (ns ! T)
          \<le> laplacian_eigenvalue (radius E) (ms ! j) (ns ! j) /
            laplacian_eigenvalue (radius E) (ms ! T) (ns ! T)"
      using laplacian_eigenvalue_mono[OF that(4), of "radius E"] pos
      by (simp add: divide_right_mono)
    moreover have "0 \<le> laplacian_eigenvalue (radius E) (ms ! i) (ns ! i) /
            laplacian_eigenvalue (radius E) (ms ! T) (ns ! T)"
      using laplacian_eigenvalue_nonneg[of "radius E" "ms ! i" "ns ! i"] pos by simp
    ultimately have "(laplacian_eigenvalue (radius E) (ms ! i) (ns ! i) /
            laplacian_eigenvalue (radius E) (ms ! T) (ns ! T)) ^ ord
          \<le> (laplacian_eigenvalue (radius E) (ms ! j) (ns ! j) /
            laplacian_eigenvalue (radius E) (ms ! T) (ns ! T)) ^ ord"
      by (rule power_mono)
    then show ?thesis
      using that(1) nth[OF that(2)] nth[OF that(3)] by (simp add: mult_left_mono)
  qed
  have same: "ds ! i = dc" if "i < length ms" "ms ! i + ns ! i = ms ! T + ns ! T" for i
  proof -
    have "laplacian_eigenvalue (radius E) (ms ! i) (ns ! i) =
          laplacian_eigenvalue (radius E) (ms ! T) (ns ! T)"
      using that(2) by (simp add: laplacian_eigenvalue_def)
    then show ?thesis using nth[OF that(1)] pos by simp
  qed
  have "length ds = length ms" using ds ellen by simp
  with T nth mono same show ?thesis by blast
qed

theorem damping_coefficients_by_wavenumber_sum_witness:
  "damping_coefficients test_engine 1 (1 / 10) 2 = Inr [0, 1 / 10, 9 / 10] \<and>
   wavenumbers test_engine = ([0, 0, 1], [0, 1, 1]) \<and>
   length [0, 0, 1 :: nat] = length [0, 1, 1 :: nat] \<and>
   [0, 1 / 10, 9 / 10 :: real] ! 1 = 1 / 10 \<and>
   [0, 1 / 10, 9 / 10 :: real] ! 1 \<le> [0, 1 / 10, 9 / 10] ! 2"
proof -
  have b: "wavenumbers test_engine = ([0, 0, 1], [0, 1, 1])"
    by (simp add: test_engine_def)
  have c: "length [0, 0, 1 :: nat] = length [0, 1, 1 :: nat]"
    by simp
  show ?thesis
    using test_damping b c damping_coefficients_by_wavenumber_sum [OF test_damping b c] by simp
qed

section \<open>Running with snapshots\<close>

text \<open>
  Whenever the generator runs to its end, the loop counter ends at the larger of its first
  value and \<open>target_steps + 1\<close>, and the model has been stepped once per unit of the counter.
\<close>

lemma rws_loop_calls:
  "rws_loop target_steps step_interval snapshot_start n s ys = Inr (ys', n', s') \<Longrightarrow>
     n' = max n (target_steps + 1) \<and> s' = (step_forward ^^ nat (n' - n)) s"
proof (induction target_steps step_interval snapshot_start n s ys rule: rws_loop.induct)
  case (1 target_steps step_interval snapshot_start n s ys)
  note unf = "1.prems"[unfolded rws_loop.simps[of target_steps step_interval snapshot_start n s ys]]
  show ?case
  proof (cases "n \<le> target_steps")
    case False
    with unf show ?thesis by simp
  next
    case True
    have rec: "n' = max (n + 1) (target_steps + 1) \<and>
         s' = (step_forward ^^ nat (n' - (n + 1))) (step_forward s)"
    proof (cases "snapshot_start < t (step_forward s)")
      case gt: True
      show ?thesis
      proof (cases "step_interval = 0")
        case True
        with gt \<open>n \<le> target_steps\<close> unf show ?thesis by simp
      next
        case nz: False
        show ?thesis
        proof (cases "(n + 1) mod step_interval = 0")
          case True
          with gt nz \<open>n \<le> target_steps\<close> unf "1.IH"(1) show ?thesis by simp
        next
          case False
          with gt nz \<open>n \<le> target_steps\<close> unf "1.IH"(2) show ?thesis by simp
        qed
      qed
    next
      case False
      with \<open>n \<le> target_steps\<close> unf "1.IH"(3) show ?thesis by simp
    qed
    from rec True have n': "n' = target_steps + 1" by simp
    with True have "nat (n' - n) = Suc (nat (n' - (n + 1)))" by simp
    with rec n' True show ?thesis
      by (simp add: funpow_swap1)
  qed
qed

lemma run_with_snapshots_calls:
  assumes "run_with_snapshots s run_time snapshot_start snapshot_interval = Inr (ys, n, s')"
  shows "n = max 0 (\<lceil>(t s + run_time) / dt s\<rceil> + 1) \<and> s' = (step_forward ^^ nat n) s"
  using assms rws_loop_calls[of "\<lceil>(t s + run_time) / dt s\<rceil>" _ snapshot_start 0 s "[]" ys n s']
  by (simp add: run_with_snapshots_def Let_def split: if_splits)

text \<open>
  Claim C5. The generator always comes to an end, \<open>rws_loop\<close> being a total function, but
  the bound on the calls of \<open>step_forward\<close> does not hold. For any model at elapsed time 0
  with \<open>dt = 10\<close>, \<open>run_with_snapshots(30)\<close> yields 10, 20, 30 and 40 and calls
  \<open>step_forward\<close> four times, while \<open>ceil((0 + 30) / 10)\<close> is 3.
\<close>

theorem run_with_snapshots_extra_step:
  "run_with_snapshots (s\<lparr>t := 0, dt := 10\<rparr>) 30 0 None =
     Inr ([10, 20, 30, 40], 4, (step_forward ^^ 4) (s\<lparr>t := 0, dt := 10\<rparr>)) \<and>
   \<lceil>(t (s\<lparr>t := 0, dt := 10\<rparr>) + 30) / dt (s\<lparr>t := 0, dt := 10\<rparr>)\<rceil> = (3::int)"
  by (simp add: run_with_snapshots_def rws_loop.simps step_forward_t step_forward_dt
      eval_nat_numeral funpow_swap1)

text \<open>
  Claim C6. For any model at elapsed time 0 with \<open>dt = 10\<close>, whatever its engine and fields,
  \<open>run_with_snapshots(run_time=100, snapshot_interval=20)\<close> yields exactly 20, 40, 60, 80
  and 100. The \<open>j\<close>-th of them is the elapsed time after \<open>j \<cdot> ceil(20/10)\<close> steps, and each
  exceeds the snapshot start 0.
\<close>

theorem snapshot_count_example:
  assumes "t s = 0" "dt s = 10"
  shows "run_with_snapshots s 100 0 (Some 20) =
      Inr ([20, 40, 60, 80, 100], 11, (step_forward ^^ 11) s) \<and>
    [20, 40, 60, 80, 100] =
      map (\<lambda>j. t ((step_forward ^^ (j * nat \<lceil>20 / dt s\<rceil>)) s)) [1, 2, 3, 4, 5] \<and>
    list_all (\<lambda>y. 0 < y) [20, 40, 60, 80, 100 :: real]"
proof -
  have "run_with_snapshots s 100 0 (Some 20) =
      Inr ([20, 40, 60, 80, 100], 11, (step_forward ^^ 11) s)"
    using assms
    by (simp add: run_with_snapshots_def rws_loop.simps step_forward_t step_forward_dt
      eval_nat_numeral funpow_swap1)
  moreover have "[20, 40, 60, 80, 100] =
      map (\<lambda>j. t ((step_forward ^^ (j * nat \<lceil>20 / dt s\<rceil>)) s)) [1, 2, 3, 4, 5]"
    using assms by (simp add: steps_t)
  ultimately show ?thesis by simp
qed

theorem snapshot_count_example_witness:
  "t test_model = 0 \<and> dt test_model = 10 \<and>
   run_with_snapshots test_model 100 0 (Some 20) =
      Inr ([20, 40, 60, 80, 100], 11, (step_forward ^^ 11) test_model)"
proof -
  have h: "t test_model = 0" "dt test_model = 10"
    by (simp_all add: test_model_def)
  show ?thesis using h snapshot_count_example [OF h] by simp
qed

section \<open>The state and its consistency\<close>

text \<open>
  Claim C8. After construction and after any run of \<open>set_state\<close> and \<open>step_forward\<close> calls
  that follows it, the grid fields are consistent with the current spectral vorticity;
  indeed \<open>set_state\<close> and \<open>step_forward\<close> each leave a consistent model whatever model they
  start from.
\<close>

theorem grid_fields_consistent:
  "init TE vrt T dt0 st r dc ord = Inr s0 \<Longrightarrow>
     consistent (foldl apply_operation s0 ops) \<and>
     consistent (set_state s g) \<and> consistent (step_forward s)"
  by (simp add: init_consistent foldl_consistent set_state_consistent step_forward_consistent)

theorem grid_fields_consistent_witness:
  "init (\<lambda>_ _ _. test_engine) [[1, 0], [0, 2], [0, 0]] 1 10 (Datetime 0) (1 / 25) (1 / 10) 2
     = Inr test_model \<and>
   consistent (foldl apply_operation test_model
      [StepForward, SetState [[0, 1], [1, 0], [2, 2]], StepForward, StepForward])"
  using init_test grid_fields_consistent [OF init_test] by simp

text \<open>
  Claim C9. Right after construction from the field \<open>vrt\<close>, and right after
  \<open>set_state(g)\<close> on any model, the stored grid vorticity is the inverse transform of the
  forward transform of the given field, and the previous-level spectral vorticity equals
  the current one.
\<close>

theorem initial_consistency:
  "(init TE vrt T dt0 st r dc ord = Inr s0 \<longrightarrow>
      vrt_grid s0 = spec_to_grid (engine s0) (grid_to_spec (engine s0) vrt) \<and>
      vrt_spec_prev s0 = vrt_spec s0) \<and>
   vrt_grid (set_state s g) = spec_to_grid (engine s) (grid_to_spec (engine s) g) \<and>
   vrt_spec_prev (set_state s g) = vrt_spec (set_state s g)"
  by (auto simp: init_def set_state_def Let_def split: sum.splits)

theorem initial_consistency_witness:
  "init (\<lambda>_ _ _. test_engine) [[1, 0], [0, 2], [0, 0]] 1 10 (Datetime 0) (1 / 25) (1 / 10) 2
     = Inr test_model \<and>
   vrt_grid test_model =
     spec_to_grid test_engine (grid_to_spec test_engine [[1, 0], [0, 2], [0, 0]]) \<and>
   vrt_spec_prev test_model = vrt_spec test_model"
  using init_test
    initial_consistency [of "\<lambda>_ _ _. test_engine" "[[1, 0], [0, 2], [0, 0]]" 1 10 "Datetime 0"
      "1 / 25" "1 / 10" 2 test_model]
  by (simp add: test_model_def)



end
